theory Spec2Isabelle
  imports Complex_Main
begin

section \<open>Floating-point values of numpy and pandas\<close>

text \<open>
  A float64 is modelled as an exact real number or one of the three special values of
  IEEE 754. The operations follow the IEEE rules for the special values (division by
  zero gives an infinity or NaN and does not raise, as numpy scalars and pandas Series
  behave); rounding, overflow and the sign of zero are not modelled.
\<close>

datatype fval = Fin real | PInf | NInf | NaN

datatype pyerror = IndexError | ValueError | ZeroDivisionError

fun fneg :: "fval \<Rightarrow> fval" where
  "fneg (Fin x) = Fin (- x)"
| "fneg PInf = NInf"
| "fneg NInf = PInf"
| "fneg NaN = NaN"

fun fadd :: "fval \<Rightarrow> fval \<Rightarrow> fval" where
  "fadd (Fin x) (Fin y) = Fin (x + y)"
| "fadd NaN _ = NaN"
| "fadd _ NaN = NaN"
| "fadd PInf NInf = NaN"
| "fadd NInf PInf = NaN"
| "fadd PInf _ = PInf"
| "fadd _ PInf = PInf"
| "fadd NInf _ = NInf"
| "fadd _ NInf = NInf"

definition fsub :: "fval \<Rightarrow> fval \<Rightarrow> fval" where
  "fsub a b = fadd a (fneg b)"

fun fmul :: "fval \<Rightarrow> fval \<Rightarrow> fval" where
  "fmul (Fin x) (Fin y) = Fin (x * y)"
| "fmul NaN _ = NaN"
| "fmul _ NaN = NaN"
| "fmul (Fin x) PInf = (if 0 < x then PInf else if x < 0 then NInf else NaN)"
| "fmul (Fin x) NInf = (if 0 < x then NInf else if x < 0 then PInf else NaN)"
| "fmul PInf (Fin y) = (if 0 < y then PInf else if y < 0 then NInf else NaN)"
| "fmul NInf (Fin y) = (if 0 < y then NInf else if y < 0 then PInf else NaN)"
| "fmul PInf PInf = PInf"
| "fmul NInf NInf = PInf"
| "fmul PInf NInf = NInf"
| "fmul NInf PInf = NInf"

fun fdiv :: "fval \<Rightarrow> fval \<Rightarrow> fval" where
  "fdiv (Fin x) (Fin y) =
     (if y \<noteq> 0 then Fin (x / y)
      else if 0 < x then PInf else if x < 0 then NInf else NaN)"
| "fdiv NaN _ = NaN"
| "fdiv _ NaN = NaN"
| "fdiv (Fin x) PInf = Fin 0"
| "fdiv (Fin x) NInf = Fin 0"
| "fdiv PInf (Fin y) = (if 0 \<le> y then PInf else NInf)"
| "fdiv NInf (Fin y) = (if 0 \<le> y then NInf else PInf)"
| "fdiv _ _ = NaN"

fun fsqrt :: "fval \<Rightarrow> fval" where
  "fsqrt (Fin x) = (if x < 0 then NaN else Fin (sqrt x))"
| "fsqrt PInf = PInf"
| "fsqrt NInf = NaN"
| "fsqrt NaN = NaN"

text \<open>Power with a finite exponent, the only kind the program computes.\<close>

fun fpow :: "fval \<Rightarrow> real \<Rightarrow> fval" where
  "fpow (Fin x) e =
     (if 0 < x then Fin (x powr e)
      else if x = 0 then (if 0 < e then Fin 0 else if e = 0 then Fin 1 else PInf)
      else if e \<in> \<int> then Fin ((if even \<lfloor>e\<rfloor> then 1 else - 1) * (\<bar>x\<bar> powr e))
      else NaN)"
| "fpow PInf e = (if 0 < e then PInf else if e = 0 then Fin 1 else Fin 0)"
| "fpow NInf e =
     (if e = 0 then Fin 1 else if e < 0 then Fin 0
      else if e \<in> \<int> \<and> odd \<lfloor>e\<rfloor> then NInf else PInf)"
| "fpow NaN e = (if e = 0 then Fin 1 else NaN)"

text \<open>The comparisons \<open>==\<close>, \<open><=\<close> and \<open><\<close>: every comparison with NaN is false.\<close>

fun feq :: "fval \<Rightarrow> fval \<Rightarrow> bool" where
  "feq (Fin x) (Fin y) = (x = y)"
| "feq PInf PInf = True"
| "feq NInf NInf = True"
| "feq _ _ = False"

fun fle :: "fval \<Rightarrow> fval \<Rightarrow> bool" where
  "fle (Fin x) (Fin y) = (x \<le> y)"
| "fle NaN _ = False"
| "fle _ NaN = False"
| "fle NInf _ = True"
| "fle _ PInf = True"
| "fle _ _ = False"

fun flt :: "fval \<Rightarrow> fval \<Rightarrow> bool" where
  "flt (Fin x) (Fin y) = (x < y)"
| "flt NaN _ = False"
| "flt _ NaN = False"
| "flt PInf _ = False"
| "flt _ NInf = False"
| "flt _ _ = True"

text \<open>\<open>np.sum\<close> of an array: left to right from 0.\<close>

definition fsum :: "fval list \<Rightarrow> fval" where
  "fsum xs = foldl fadd (Fin 0) xs"

section \<open>pandas Series operations\<close>

text \<open>A Series of floats is a list of \<open>fval\<close>; the index labels are not modelled.\<close>

definition dropna :: "fval list \<Rightarrow> fval list" where
  "dropna xs = filter (\<lambda>x. x \<noteq> NaN) xs"

text \<open>\<open>Series.pct_change()\<close>: \<open>p[t] / p[t-1] - 1\<close>, NaN at the first position.\<close>

fun pct_change :: "real list \<Rightarrow> fval list" where
  "pct_change [] = []"
| "pct_change (p # ps) =
     NaN # map2 (\<lambda>prev cur. fsub (fdiv (Fin cur) (Fin prev)) (Fin 1)) (p # ps) ps"

text \<open>\<open>Series.sum()\<close>, \<open>Series.mean()\<close>, \<open>Series.std()\<close> (ddof = 1) and
  \<open>Series.min()\<close> skip NaN entries; the mean and minimum of no values and the standard
  deviation of fewer than two values are NaN.\<close>

definition series_sum :: "fval list \<Rightarrow> fval" where
  "series_sum xs = fsum (dropna xs)"

definition series_mean :: "fval list \<Rightarrow> fval" where
  "series_mean xs =
     (let ys = dropna xs in
      if ys = [] then NaN else fdiv (fsum ys) (Fin (real (length ys))))"

definition series_std :: "fval list \<Rightarrow> fval" where
  "series_std xs =
     (let ys = dropna xs; n = length ys in
      if n \<le> 1 then NaN
      else let avg = fdiv (fsum ys) (Fin (real n));
               sqr = map (\<lambda>v. let d = fsub avg v in fmul d d) ys
           in fsqrt (fdiv (fsum sqr) (Fin (real n - 1))))"

definition fmin :: "fval \<Rightarrow> fval \<Rightarrow> fval" where
  "fmin a b = (if fle a b then a else b)"

definition fmax :: "fval \<Rightarrow> fval \<Rightarrow> fval" where
  "fmax a b = (if fle a b then b else a)"


section \<open>FinancialModel (models.py)\<close>

record FinancialModel =
  fm_prices :: "real list"
  fm_risk_free_rate :: real
  fm_returns :: "fval list"

definition FinancialModel_init :: "real list \<Rightarrow> real \<Rightarrow> FinancialModel" where
  "FinancialModel_init prices risk_free_rate =
     \<lparr>fm_prices = prices, fm_risk_free_rate = risk_free_rate,
      fm_returns = dropna (pct_change prices)\<rparr>"

text \<open>\<open>prices.iloc[-1]\<close> and \<open>prices.iloc[0]\<close> raise IndexError on an empty Series, and
  they are evaluated before \<open>years\<close> is tested.\<close>

definition calculate_annualized_return :: "FinancialModel \<Rightarrow> pyerror + fval" where
  "calculate_annualized_return self =
     (case fm_prices self of
        [] \<Rightarrow> Inl IndexError
      | p0 # ps \<Rightarrow>
          let total_return = fsub (fdiv (Fin (last (p0 # ps))) (Fin p0)) (Fin 1);
              years = real (length (p0 # ps)) / 252
          in if years = 0 then Inr (Fin 0)
             else Inr (fsub (fpow (fadd (Fin 1) total_return) (1 / years)) (Fin 1)))"

definition calculate_annualized_volatility :: "FinancialModel \<Rightarrow> fval" where
  "calculate_annualized_volatility self = fmul (series_std (fm_returns self)) (Fin (sqrt 252))"

text \<open>An argument left at its default \<open>None\<close> is computed from the model. The
  \<open>isinstance(..., pd.Series)\<close> branches unwrap a one-element Series and are not
  reached for float arguments. The literal \<open>0\<close> that the guard returns is \<open>Fin 0\<close>.\<close>

definition calculate_sharpe_ratio ::
    "FinancialModel \<Rightarrow> fval option \<Rightarrow> fval option \<Rightarrow> pyerror + fval" where
  "calculate_sharpe_ratio self annualized_return volatility =
     (case (case annualized_return of
              None \<Rightarrow> calculate_annualized_return self | Some a \<Rightarrow> Inr a) of
        Inl e \<Rightarrow> Inl e
      | Inr ar \<Rightarrow>
          let vol = (case volatility of
                       None \<Rightarrow> calculate_annualized_volatility self | Some v \<Rightarrow> v)
          in if feq vol (Fin 0) then Inr (Fin 0)
             else Inr (fdiv (fsub ar (Fin (fm_risk_free_rate self))) vol))"

definition calculate_sortino_ratio ::
    "FinancialModel \<Rightarrow> fval option \<Rightarrow> real \<Rightarrow> pyerror + fval" where
  "calculate_sortino_ratio self annualized_return target_return =
     (case (case annualized_return of
              None \<Rightarrow> calculate_annualized_return self | Some a \<Rightarrow> Inr a) of
        Inl e \<Rightarrow> Inl e
      | Inr ar \<Rightarrow>
          let downside_returns = filter (\<lambda>r. flt r (Fin target_return)) (fm_returns self);
              downside_volatility = fmul (series_std downside_returns) (Fin (sqrt 252))
          in if feq downside_volatility (Fin 0) then Inr (Fin 0)
             else Inr (fdiv (fsub ar (Fin target_return)) downside_volatility))"






section \<open>numpy array operations\<close>


text \<open>\<open>np.dot\<close> of two vectors, and of a matrix (a list of rows) with a vector.\<close>

definition np_dot :: "fval list \<Rightarrow> fval list \<Rightarrow> fval" where
  "np_dot a b = fsum (map2 fmul a b)"

definition np_dot_mv :: "fval list list \<Rightarrow> fval list \<Rightarrow> fval list" where
  "np_dot_mv m v = map (\<lambda>row. np_dot row v) m"





text \<open>\<open>np.linspace(start, stop, num)\<close> with the end point included.\<close>

definition linspace :: "fval \<Rightarrow> fval \<Rightarrow> nat \<Rightarrow> fval list" where
  "linspace start stop num =
     (if num = 0 then []
      else if num = 1 then [fadd (fmul (Fin 0) (fsub stop start)) start]
      else let step = fdiv (fsub stop start) (Fin (real (num - 1)))
           in map (\<lambda>i. fadd (fmul (Fin (real i)) step) start) [0..<num - 1] @ [stop])"

section \<open>pandas DataFrame of returns\<close>

text \<open>The return matrix: column labels and the rows of finite values (the matrix has
  no missing values). A DataFrame is rectangular: every row has one cell per column.\<close>

record dataframe =
  df_columns :: "string list"
  df_rows :: "real list list"

definition wf_dataframe :: "dataframe \<Rightarrow> bool" where
  "wf_dataframe df = (\<forall>row \<in> set (df_rows df). length row = length (df_columns df))"

definition df_col :: "dataframe \<Rightarrow> nat \<Rightarrow> real list" where
  "df_col df j = map (\<lambda>row. row ! j) (df_rows df)"

definition df_mean :: "dataframe \<Rightarrow> fval list" where
  "df_mean df = map (\<lambda>j. series_mean (map Fin (df_col df j))) [0..<length (df_columns df)]"

text \<open>Sample covariance (ddof = 1) of two columns; NaN with fewer than two rows.\<close>

definition series_cov :: "real list \<Rightarrow> real list \<Rightarrow> fval" where
  "series_cov xs ys =
     (let n = length xs in
      if n \<le> 1 then NaN
      else let mx = sum_list xs / real n; my = sum_list ys / real n
           in Fin (sum_list (map2 (\<lambda>a b. (a - mx) * (b - my)) xs ys) / (real n - 1)))"

definition df_cov :: "dataframe \<Rightarrow> fval list list" where
  "df_cov df =
     (let k = length (df_columns df)
      in map (\<lambda>i. map (\<lambda>j. series_cov (df_col df i) (df_col df j)) [0..<k]) [0..<k])"

section \<open>PortfolioModel (models.py)\<close>

text \<open>The weights are the values of a Series indexed by the columns of the returns,
  in column order.\<close>

record PortfolioModel =
  pm_returns :: dataframe
  pm_weights :: "real list"
  pm_risk_free_rate :: real

definition PortfolioModel_init ::
    "dataframe \<Rightarrow> real list option \<Rightarrow> real \<Rightarrow> pyerror + PortfolioModel" where
  "PortfolioModel_init returns weights risk_free_rate =
     (case weights of
        Some w \<Rightarrow> Inr \<lparr>pm_returns = returns, pm_weights = w, pm_risk_free_rate = risk_free_rate\<rparr>
      | None \<Rightarrow>
          let k = length (df_columns returns)
          in if k = 0 then Inl ZeroDivisionError
             else Inr \<lparr>pm_returns = returns, pm_weights = replicate k (1 / real k),
                       pm_risk_free_rate = risk_free_rate\<rparr>)"

definition calculate_portfolio_return :: "PortfolioModel \<Rightarrow> fval" where
  "calculate_portfolio_return self =
     fmul (series_sum (map2 fmul (df_mean (pm_returns self)) (map Fin (pm_weights self))))
          (Fin 252)"

definition calculate_portfolio_volatility :: "PortfolioModel \<Rightarrow> pyerror + fval" where
  "calculate_portfolio_volatility self =
     (let cov_matrix = map (map (\<lambda>c. fmul c (Fin 252))) (df_cov (pm_returns self));
          w = map Fin (pm_weights self)
      in if length w \<noteq> length cov_matrix then Inl ValueError
         else Inr (fsqrt (np_dot w (np_dot_mv cov_matrix w))))"

definition calculate_portfolio_sharpe :: "PortfolioModel \<Rightarrow> pyerror + fval" where
  "calculate_portfolio_sharpe self =
     (let ret = calculate_portfolio_return self
      in case calculate_portfolio_volatility self of
           Inl e \<Rightarrow> Inl e
         | Inr vol \<Rightarrow>
             if feq vol (Fin 0) then Inr (Fin 0)
             else Inr (fdiv (fsub ret (Fin (pm_risk_free_rate self))) vol))"




section \<open>MetricsCalculator.calculate_monte_carlo_var (metrics.py)\<close>




section \<open>PortfolioOptimizer (optimization.py)\<close>

record OptimizationResult =
  or_weights :: "fval list"
  or_expected_return :: fval
  or_volatility :: fval
  or_sharpe_ratio :: fval

record PortfolioOptimizer =
  po_returns :: dataframe
  po_risk_free_rate :: real
  po_min_weight :: real
  po_max_weight :: real
  po_expected_returns :: "fval list"
  po_cov_matrix :: "fval list list"
  po_assets :: "string list"

definition PortfolioOptimizer_init ::
    "dataframe \<Rightarrow> real \<Rightarrow> real \<Rightarrow> real \<Rightarrow> PortfolioOptimizer" where
  "PortfolioOptimizer_init returns risk_free_rate min_weight max_weight =
     \<lparr>po_returns = returns, po_risk_free_rate = risk_free_rate,
      po_min_weight = min_weight, po_max_weight = max_weight,
      po_expected_returns = map (\<lambda>m. fmul m (Fin 252)) (df_mean returns),
      po_cov_matrix = map (map (\<lambda>c. fmul c (Fin 252))) (df_cov returns),
      po_assets = df_columns returns\<rparr>"

text \<open>\<open>_calculate_portfolio_metrics\<close>. A weight array whose length is not the number
  of assets makes \<open>np.sum\<close> of the product or \<open>np.dot\<close> raise ValueError. The Sharpe
  ratio is a plain numpy division: there is no test of the volatility.\<close>

definition calculate_portfolio_metrics ::
    "PortfolioOptimizer \<Rightarrow> fval list \<Rightarrow> pyerror + fval \<times> fval \<times> fval" where
  "calculate_portfolio_metrics self weights =
     (if length weights \<noteq> length (po_expected_returns self) then Inl ValueError
      else let portfolio_return = fsum (map2 fmul (po_expected_returns self) weights);
               portfolio_variance = np_dot weights (np_dot_mv (po_cov_matrix self) weights);
               portfolio_volatility = fsqrt portfolio_variance;
               sharpe_ratio = fdiv (fsub portfolio_return (Fin (po_risk_free_rate self)))
                                   portfolio_volatility
           in Inr (portfolio_return, portfolio_volatility, sharpe_ratio))"


definition portfolio_volatility :: "PortfolioOptimizer \<Rightarrow> fval list \<Rightarrow> pyerror + fval" where
  "portfolio_volatility self weights =
     (case calculate_portfolio_metrics self weights of
        Inl e \<Rightarrow> Inl e | Inr (_, volatility, _) \<Rightarrow> Inr volatility)"

definition negative_return :: "PortfolioOptimizer \<Rightarrow> fval list \<Rightarrow> pyerror + fval" where
  "negative_return self weights =
     (case calculate_portfolio_metrics self weights of
        Inl e \<Rightarrow> Inl e | Inr (return_val, _, _) \<Rightarrow> Inr (fneg return_val))"

text \<open>
  \<open>scipy.optimize.minimize\<close> is a library outside the repository and is a parameter of
  the model: from the objective, the initial guess, the bounds and the equality
  constraints it either raises or returns a result object, of which the program reads
  only \<open>x\<close>. The field \<open>success\<close> of that object tells whether SLSQP converged. The method
  name and the option \<open>ftol = 1e-9\<close> are the same in every call and are left out.
\<close>

record OptimizeResult =
  res_x :: "fval list"
  res_success :: bool

record constraint =
  con_type :: string
  con_fun :: "fval list \<Rightarrow> fval"

type_synonym minimize =
  "(fval list \<Rightarrow> pyerror + fval) \<Rightarrow> fval list \<Rightarrow> (real \<times> real) list \<Rightarrow> constraint list
     \<Rightarrow> pyerror + OptimizeResult"

text \<open>The common end of the four optimize operations: the weights are \<open>result.x\<close> and
  the three metrics are computed from them. \<open>1 / n_assets\<close> is a Python division and
  raises ZeroDivisionError when there is no asset.\<close>

definition result_of :: "PortfolioOptimizer \<Rightarrow> fval list \<Rightarrow> pyerror + OptimizationResult" where
  "result_of self weights =
     (case calculate_portfolio_metrics self weights of
        Inl e \<Rightarrow> Inl e
      | Inr (ret, vol, sharpe) \<Rightarrow>
          Inr \<lparr>or_weights = weights, or_expected_return = ret, or_volatility = vol,
               or_sharpe_ratio = sharpe\<rparr>)"

definition sum_to_one :: constraint where
  "sum_to_one = \<lparr>con_type = ''eq'', con_fun = (\<lambda>x. fsub (fsum x) (Fin 1))\<rparr>"


definition optimize_min_volatility :: "minimize \<Rightarrow> PortfolioOptimizer \<Rightarrow> pyerror + OptimizationResult" where
  "optimize_min_volatility solver self =
     (let n_assets = length (po_assets self)
      in if n_assets = 0 then Inl ZeroDivisionError
         else let initial_weights = replicate n_assets (Fin (1 / real n_assets));
                  bounds = replicate n_assets (po_min_weight self, po_max_weight self);
                  constraints = [sum_to_one]
              in case solver (portfolio_volatility self) initial_weights bounds constraints of
                   Inl e \<Rightarrow> Inl e
                 | Inr result \<Rightarrow> result_of self (res_x result))"

definition optimize_max_return :: "minimize \<Rightarrow> PortfolioOptimizer \<Rightarrow> pyerror + OptimizationResult" where
  "optimize_max_return solver self =
     (let n_assets = length (po_assets self)
      in if n_assets = 0 then Inl ZeroDivisionError
         else let initial_weights = replicate n_assets (Fin (1 / real n_assets));
                  bounds = replicate n_assets (po_min_weight self, po_max_weight self);
                  constraints = [sum_to_one]
              in case solver (negative_return self) initial_weights bounds constraints of
                   Inl e \<Rightarrow> Inl e
                 | Inr result \<Rightarrow> result_of self (res_x result))"

definition optimize_target_return ::
    "minimize \<Rightarrow> PortfolioOptimizer \<Rightarrow> fval \<Rightarrow> pyerror + OptimizationResult" where
  "optimize_target_return solver self target_return =
     (let n_assets = length (po_assets self)
      in if n_assets = 0 then Inl ZeroDivisionError
         else let initial_weights = replicate n_assets (Fin (1 / real n_assets));
                  bounds = replicate n_assets (po_min_weight self, po_max_weight self);
                  constraints =
                    [sum_to_one,
                     \<lparr>con_type = ''eq'',
                      con_fun = (\<lambda>x. fsub (fsum (map2 fmul (po_expected_returns self) x))
                                          target_return)\<rparr>]
              in case solver (portfolio_volatility self) initial_weights bounds constraints of
                   Inl e \<Rightarrow> Inl e
                 | Inr result \<Rightarrow> result_of self (res_x result))"

text \<open>The dictionary that \<open>generate_efficient_frontier\<close> returns has exactly these
  three arrays.\<close>

record frontier =
  fr_volatilities :: "fval list"
  fr_returns :: "fval list"
  fr_sharpe_ratios :: "fval list"

text \<open>The loop over the target returns: the bare \<open>except: continue\<close> drops a target
  whose optimization raised and goes on with the next one.\<close>

fun frontier_loop ::
    "minimize \<Rightarrow> PortfolioOptimizer \<Rightarrow> fval list \<Rightarrow> frontier \<Rightarrow> frontier" where
  "frontier_loop solver self [] acc = acc"
| "frontier_loop solver self (target_ret # rest) acc =
     (case optimize_target_return solver self target_ret of
        Inl e \<Rightarrow> frontier_loop solver self rest acc
      | Inr result \<Rightarrow>
          frontier_loop solver self rest
            \<lparr>fr_volatilities = fr_volatilities acc @ [or_volatility result],
             fr_returns = fr_returns acc @ [or_expected_return result],
             fr_sharpe_ratios = fr_sharpe_ratios acc @ [or_sharpe_ratio result]\<rparr>)"

definition generate_efficient_frontier ::
    "minimize \<Rightarrow> PortfolioOptimizer \<Rightarrow> nat \<Rightarrow> pyerror + frontier" where
  "generate_efficient_frontier solver self num_portfolios =
     (case optimize_min_volatility solver self of
        Inl e \<Rightarrow> Inl e
      | Inr rmin \<Rightarrow>
          (case optimize_max_return solver self of
             Inl e \<Rightarrow> Inl e
           | Inr rmax \<Rightarrow>
               let min_ret = or_expected_return rmin;
                   max_ret = or_expected_return rmax;
                   target_returns = linspace min_ret max_ret num_portfolios
               in Inr (frontier_loop solver self target_returns
                         \<lparr>fr_volatilities = [], fr_returns = [], fr_sharpe_ratios = []\<rparr>)))"



section \<open>Auxiliary functions on finite values\<close>





section \<open>The weight-vector invariant\<close>


section \<open>Example inputs\<close>



definition ex_optimizer :: PortfolioOptimizer where
  "ex_optimizer = PortfolioOptimizer_init
     \<lparr>df_columns = [''A''], df_rows = [[1 / 100], [2 / 100], [- 3 / 100]]\<rparr> (1 / 25) 0 1"

definition ex_failed_solver :: minimize where
  "ex_failed_solver obj x0 bnds cons = Inr \<lparr>res_x = [Fin (1 / 2)], res_success = False\<rparr>"



text \<open>Two further solvers for the efficient frontier: one that raises on every call with
  two constraints, which are the calls of \<open>optimize_target_return\<close>, and returns the
  initial weights otherwise; and one that always returns the initial weights.\<close>

definition ex_raising_solver :: minimize where
  "ex_raising_solver obj x0 bnds cons =
     (if length cons = 2 then Inl ValueError else Inr \<lparr>res_x = x0, res_success = True\<rparr>)"

definition ex_uniform_solver :: minimize where
  "ex_uniform_solver obj x0 bnds cons = Inr \<lparr>res_x = x0, res_success = True\<rparr>"

section \<open>Facts about the floating-point operations\<close>


lemma fmax_Fin [simp]: "fmax (Fin a) (Fin b) = Fin (max a b)"
  by (simp add: fmax_def max_def)

lemma fmin_Fin [simp]: "fmin (Fin a) (Fin b) = Fin (min a b)"
  by (simp add: fmin_def min_def)











section \<open>Annualized return\<close>

lemma annualized_return_formula:
  assumes "fm_prices self = p0 # ps" and "0 < p0" and "0 < last (p0 # ps)"
  shows "calculate_annualized_return self =
           Inr (Fin ((last (p0 # ps) / p0) powr (252 / real (length (p0 # ps))) - 1))"
  using assms by (simp add: calculate_annualized_return_def fsub_def Let_def)

lemma annualized_return_single:
  assumes "fm_prices self = [p]" and "p \<noteq> 0"
  shows "calculate_annualized_return self = Inr (Fin 0)"
  using assms by (simp add: calculate_annualized_return_def fsub_def Let_def)

text \<open>
  Claim C7. The annualized return is \<open>(P_last / P_first) ^ (252 / n) - 1\<close>, and a price
  series with fewer than 2 observations gives 0 without raising. For the empty series
  the code raises IndexError: the two \<open>iloc\<close> reads come before the \<open>years == 0\<close> guard
  that was meant to return 0.
\<close>

theorem annualized_return_empty_raises:
  "calculate_annualized_return (FinancialModel_init [] rf) = Inl IndexError"
  by (simp add: calculate_annualized_return_def FinancialModel_init_def)

section \<open>Sharpe ratio\<close>

lemma sharpe_ratio_zero_volatility:
  "calculate_sharpe_ratio self (Some a) (Some (Fin 0)) = Inr (Fin 0)"
  by (simp add: calculate_sharpe_ratio_def)

lemma sharpe_ratio_zero_computed_volatility:
  assumes "calculate_annualized_return self = Inr a"
    and "calculate_annualized_volatility self = Fin 0"
  shows "calculate_sharpe_ratio self None None = Inr (Fin 0)"
  using assms by (simp add: calculate_sharpe_ratio_def)

lemma portfolio_sharpe_zero_volatility:
  assumes "calculate_portfolio_volatility self = Inr (Fin 0)"
  shows "calculate_portfolio_sharpe self = Inr (Fin 0)"
  using assms by (simp add: calculate_portfolio_sharpe_def)

lemma fdiv_zero_not_finite: "fdiv a (Fin 0) \<noteq> Fin r"
  by (cases a) simp_all

lemma portfolio_metrics_zero_volatility:
  assumes "calculate_portfolio_metrics self w = Inr (ret, Fin 0, sharpe)"
  shows "sharpe \<in> {PInf, NInf, NaN}"
proof -
  from assms have "sharpe = fdiv (fsub ret (Fin (po_risk_free_rate self))) (Fin 0)"
    by (auto simp: calculate_portfolio_metrics_def Let_def split: if_splits)
  moreover have "fdiv a (Fin 0) \<in> {PInf, NInf, NaN}" for a
    by (cases a) simp_all
  ultimately show ?thesis by simp
qed

text \<open>
  Claim C1. Wherever a Sharpe ratio is computed, a volatility of 0 gives the ratio 0,
  without an exception and without an infinity. \<open>FinancialModel.calculate_sharpe_ratio\<close>
  and \<open>PortfolioModel.calculate_portfolio_sharpe\<close> test the volatility and return 0
  (lemmas \<open>sharpe_ratio_zero_volatility\<close>, \<open>portfolio_sharpe_zero_volatility\<close>);
  \<open>PortfolioOptimizer._calculate_portfolio_metrics\<close> divides without the test. For one
  asset whose return is 0 in each of three periods and the weight 1, the volatility is 0
  and the Sharpe ratio returned is minus infinity.
\<close>

theorem portfolio_metrics_zero_volatility_infinite:
  "calculate_portfolio_metrics
     (PortfolioOptimizer_init \<lparr>df_columns = [''CASH''], df_rows = [[0], [0], [0]]\<rparr>
        (1 / 25) 0 1) [Fin 1]
   = Inr (Fin 0, Fin 0, NInf)"
  by (simp add: calculate_portfolio_metrics_def PortfolioOptimizer_init_def df_mean_def
      df_cov_def df_col_def series_mean_def series_cov_def dropna_def fsum_def np_dot_def
      np_dot_mv_def fsub_def Let_def)

section \<open>Sortino ratio\<close>

lemma sortino_ratio_zero_volatility:
  assumes "series_std (filter (\<lambda>r. flt r (Fin target)) (fm_returns self)) = Fin 0"
  shows "calculate_sortino_ratio self (Some a) target = Inr (Fin 0)"
  using assms by (simp add: calculate_sortino_ratio_def)

lemma sortino_ratio_formula:
  assumes "series_std (filter (\<lambda>r. flt r (Fin target)) (fm_returns self)) = Fin d" and "d \<noteq> 0"
  shows "calculate_sortino_ratio self (Some (Fin a)) target =
           Inr (Fin ((a - target) / (d * sqrt 252)))"
  using assms by (simp add: calculate_sortino_ratio_def fsub_def)

lemma sortino_ratio_no_downside:
  assumes "filter (\<lambda>r. flt r (Fin target)) (fm_returns self) = []"
  shows "calculate_sortino_ratio self (Some (Fin a)) target = Inr NaN"
  using assms by (simp add: calculate_sortino_ratio_def series_std_def dropna_def fsub_def)

text \<open>
  Claim C8. The Sortino ratio is the excess annualized return over the target divided by
  the annualized standard deviation of the returns below the target, and it is 0 when
  there is no such return or their volatility is 0. The guard of the code tests
  \<open>downside_volatility == 0\<close>, but the standard deviation of an empty selection is NaN,
  which is not equal to 0: for the rising prices 100, 110, 121 and the target 0 there is
  no return below the target and the result is NaN.
\<close>

theorem sortino_ratio_no_downside_nan:
  "calculate_sortino_ratio (FinancialModel_init [100, 110, 121] (1 / 25)) None 0 = Inr NaN"
  by (simp add: calculate_sortino_ratio_def FinancialModel_init_def
      calculate_annualized_return_def dropna_def fsub_def series_std_def Let_def)

section \<open>Maximum drawdown\<close>










section \<open>Series of finite values\<close>


















section \<open>Sums and standard deviations with special values\<close>














lemma fmul_self_PInf: "fmul d d = PInf \<Longrightarrow> d = PInf \<or> d = NInf"
  by (cases d) simp_all


section \<open>Percentiles\<close>










section \<open>Historical VaR and CVaR\<close>













section \<open>Monte Carlo VaR and CVaR\<close>











section \<open>The optimize operations and the solver\<close>

lemma sqrt_441_10000: "sqrt (441 / 10000) = 21 / 100"
  by (rule real_sqrt_unique) (simp_all add: power2_eq_square)




lemma ex_optimizer_fields:
  "po_assets ex_optimizer = [''A'']" "po_expected_returns ex_optimizer = [Fin 0]"
  "po_cov_matrix ex_optimizer = [[Fin (441 / 2500)]]" "po_risk_free_rate ex_optimizer = 1 / 25"
  "po_min_weight ex_optimizer = 0" "po_max_weight ex_optimizer = 1"
  by (simp_all add: ex_optimizer_def PortfolioOptimizer_init_def df_mean_def df_cov_def
      df_col_def series_mean_def series_cov_def dropna_def fsum_def Let_def)

lemma ex_result_half:
  "result_of ex_optimizer [Fin (1 / 2)] =
     Inr \<lparr>or_weights = [Fin (1 / 2)], or_expected_return = Fin 0,
          or_volatility = Fin (21 / 100), or_sharpe_ratio = Fin (- 4 / 21)\<rparr>"
  by (simp add: result_of_def calculate_portfolio_metrics_def ex_optimizer_fields fsum_def
      np_dot_def np_dot_mv_def fsub_def Let_def sqrt_441_10000)



section \<open>The Monte Carlo draw and the generator state\<close>







section \<open>Weight vectors returned by the optimizer\<close>

















section \<open>The efficient frontier\<close>

text \<open>The loop keeps the results of the targets whose optimization returned, in order.\<close>

lemma frontier_loop_successes:
  "frontier_loop solver self ts acc =
     \<lparr>fr_volatilities = fr_volatilities acc @
        map or_volatility (map projr (filter (\<lambda>x. \<not> isl x) (map (optimize_target_return solver self) ts))),
      fr_returns = fr_returns acc @
        map or_expected_return (map projr (filter (\<lambda>x. \<not> isl x) (map (optimize_target_return solver self) ts))),
      fr_sharpe_ratios = fr_sharpe_ratios acc @
        map or_sharpe_ratio (map projr (filter (\<lambda>x. \<not> isl x) (map (optimize_target_return solver self) ts)))\<rparr>"
proof (induction ts arbitrary: acc)
  case Nil
  then show ?case by simp
next
  case (Cons t ts)
  show ?case
    by (cases "optimize_target_return solver self t") (simp_all add: Cons.IH)
qed

lemma length_linspace: "length (linspace a b n) = n"
  by (simp add: linspace_def Let_def)

lemma linspace_finite:
  assumes "2 \<le> n"
  shows "linspace (Fin a) (Fin b) n = map (\<lambda>i. Fin (a + real i * (b - a) / real (n - 1))) [0..<n]"
proof -
  have n: "n - 1 \<noteq> 0" "n \<noteq> 0" "n \<noteq> 1" using assms by simp_all
  have "[0..<Suc (n - 1)] = [0..<n - 1] @ [n - 1]" by (rule upt_Suc_append) simp
  moreover have "Suc (n - 1) = n" using assms by simp
  ultimately have u: "[0..<n] = [0..<n - 1] @ [n - 1]" by simp
  have l: "Fin (a + real (n - 1) * (b - a) / real (n - 1)) = Fin b" using n by simp
  have s: "fdiv (fsub (Fin b) (Fin a)) (Fin (real (n - 1))) = Fin ((b - a) / real (n - 1))"
    using n by (simp add: fsub_def)
  have m: "map (\<lambda>i. fadd (fmul (Fin (real i)) (Fin ((b - a) / real (n - 1)))) (Fin a)) [0..<n - 1] =
      map (\<lambda>i. Fin (a + real i * (b - a) / real (n - 1))) [0..<n - 1]"
    by (simp add: add.commute)
  have "map (\<lambda>i. Fin (a + real i * (b - a) / real (n - 1))) ([0..<n - 1] @ [n - 1]) =
      map (\<lambda>i. Fin (a + real i * (b - a) / real (n - 1))) [0..<n - 1] @
      [Fin (a + real (n - 1) * (b - a) / real (n - 1))]"
    by (simp only: map_append list.map)
  then have r: "map (\<lambda>i. Fin (a + real i * (b - a) / real (n - 1))) [0..<n] =
      map (\<lambda>i. Fin (a + real i * (b - a) / real (n - 1))) [0..<n - 1] @ [Fin b]"
    by (simp only: u[symmetric] l)
  show ?thesis
    unfolding linspace_def Let_def if_not_P[OF n(2)] if_not_P[OF n(3)] s m r ..
qed

text \<open>
  Claim C5 as the code has it. Whenever the two optimizations that give the end points
  return, \<open>generate_efficient_frontier\<close> returns for every count \<open>N\<close>: it sweeps the
  \<open>N\<close> targets of \<open>np.linspace(min_ret, max_ret, N)\<close>, which for finite end points
  \<open>a\<close>, \<open>b\<close> and \<open>N \<ge> 2\<close> are \<open>a + i (b - a) / (N - 1)\<close> for
  \<open>i = 0, ..., N - 1\<close>, both end points included. A target whose
  \<open>optimize_target_return\<close> raises is dropped and the sweep goes on. The dictionary
  returned holds the volatility, the expected return and the Sharpe ratio of exactly the
  targets that did not raise, in sweep order, and nothing else: the number of dropped
  targets is \<open>N\<close> minus the common length of the three arrays, and is not returned.
\<close>

theorem efficient_frontier_sweep:
  assumes "optimize_min_volatility solver self = Inr rmin"
    and "optimize_max_return solver self = Inr rmax"
  shows "\<exists>fr. generate_efficient_frontier solver self N = Inr fr \<and>
     (let targets = linspace (or_expected_return rmin) (or_expected_return rmax) N;
          outcomes = map (optimize_target_return solver self) targets;
          ok = map projr (filter (\<lambda>x. \<not> isl x) outcomes)
      in length targets = N \<and>
         fr_volatilities fr = map or_volatility ok \<and>
         fr_returns fr = map or_expected_return ok \<and>
         fr_sharpe_ratios fr = map or_sharpe_ratio ok \<and>
         length ok + length (filter isl outcomes) = N \<and>
         (\<forall>a b. or_expected_return rmin = Fin a \<longrightarrow> or_expected_return rmax = Fin b \<longrightarrow> 2 \<le> N \<longrightarrow>
            targets = map (\<lambda>i. Fin (a + real i * (b - a) / real (N - 1))) [0..<N]))"
proof -
  define targets where "targets = linspace (or_expected_return rmin) (or_expected_return rmax) N"
  define outcomes where "outcomes = map (optimize_target_return solver self) targets"
  define ok where "ok = map projr (filter (\<lambda>x. \<not> isl x) outcomes)"
  have g: "generate_efficient_frontier solver self N =
      Inr \<lparr>fr_volatilities = map or_volatility ok, fr_returns = map or_expected_return ok,
           fr_sharpe_ratios = map or_sharpe_ratio ok\<rparr>"
    by (simp add: generate_efficient_frontier_def assms Let_def frontier_loop_successes
        ok_def outcomes_def targets_def)
  have len: "length targets = N" by (simp add: targets_def length_linspace)
  have "length (filter (\<lambda>x. \<not> isl x) outcomes) + length (filter isl outcomes) = length outcomes"
    using sum_length_filter_compl[of isl outcomes] by simp
  then have cnt: "length ok + length (filter isl outcomes) = N"
    by (simp add: ok_def outcomes_def len)
  have fin: "targets = map (\<lambda>i. Fin (a + real i * (b - a) / real (N - 1))) [0..<N]"
    if "or_expected_return rmin = Fin a" "or_expected_return rmax = Fin b" "2 \<le> N" for a b
    using that by (simp add: targets_def linspace_finite)
  show ?thesis
    unfolding Let_def targets_def[symmetric] outcomes_def[symmetric] ok_def[symmetric]
    using g len cnt fin by simp
qed

lemma sqrt_441_2500: "sqrt (441 / 2500) = 21 / 50"
  by (rule real_sqrt_unique) (simp_all add: power2_eq_square)

lemma ex_result_one:
  "result_of ex_optimizer [Fin 1] =
     Inr \<lparr>or_weights = [Fin 1], or_expected_return = Fin 0,
          or_volatility = Fin (21 / 50), or_sharpe_ratio = Fin (- 2 / 21)\<rparr>"
  by (simp add: result_of_def calculate_portfolio_metrics_def ex_optimizer_fields fsum_def
      np_dot_def np_dot_mv_def fsub_def Let_def sqrt_441_2500)

lemma ex_raising_min_max:
  "optimize_min_volatility ex_raising_solver ex_optimizer = result_of ex_optimizer [Fin 1]"
  "optimize_max_return ex_raising_solver ex_optimizer = result_of ex_optimizer [Fin 1]"
  "optimize_target_return ex_raising_solver ex_optimizer t = Inl ValueError"
  by (simp_all add: optimize_min_volatility_def optimize_max_return_def optimize_target_return_def
      ex_raising_solver_def ex_optimizer_fields)

lemma ex_uniform_all:
  "optimize_min_volatility ex_uniform_solver ex_optimizer = result_of ex_optimizer [Fin 1]"
  "optimize_max_return ex_uniform_solver ex_optimizer = result_of ex_optimizer [Fin 1]"
  "optimize_target_return ex_uniform_solver ex_optimizer t = result_of ex_optimizer [Fin 1]"
  by (simp_all add: optimize_min_volatility_def optimize_max_return_def optimize_target_return_def
      ex_uniform_solver_def ex_optimizer_fields)

lemma ex_failed_all:
  "optimize_min_volatility ex_failed_solver ex_optimizer = result_of ex_optimizer [Fin (1 / 2)]"
  "optimize_max_return ex_failed_solver ex_optimizer = result_of ex_optimizer [Fin (1 / 2)]"
  "optimize_target_return ex_failed_solver ex_optimizer t = result_of ex_optimizer [Fin (1 / 2)]"
  by (simp_all add: optimize_min_volatility_def optimize_max_return_def optimize_target_return_def
      ex_failed_solver_def ex_optimizer_fields)

text \<open>The claim as stated fails. With a solver that raises on every target, the sweep
  over one target drops it and returns three empty arrays, which is also what the sweep
  over no target returns, where nothing is dropped: the returned value does not tell the
  caller how many points were skipped. A solver that reports \<open>success = False\<close> without
  raising has its point kept.\<close>

theorem skipped_count_counterexample:
  "generate_efficient_frontier ex_raising_solver ex_optimizer 1 =
     Inr \<lparr>fr_volatilities = [], fr_returns = [], fr_sharpe_ratios = []\<rparr> \<and>
   map (optimize_target_return ex_raising_solver ex_optimizer) (linspace (Fin 0) (Fin 0) 1) =
     [Inl ValueError] \<and>
   generate_efficient_frontier ex_raising_solver ex_optimizer 0 =
     Inr \<lparr>fr_volatilities = [], fr_returns = [], fr_sharpe_ratios = []\<rparr> \<and>
   map (optimize_target_return ex_raising_solver ex_optimizer) (linspace (Fin 0) (Fin 0) 0) = [] \<and>
   generate_efficient_frontier ex_failed_solver ex_optimizer 1 =
     Inr \<lparr>fr_volatilities = [Fin (21 / 100)], fr_returns = [Fin 0],
          fr_sharpe_ratios = [Fin (- 4 / 21)]\<rparr>"
  by (simp add: generate_efficient_frontier_def ex_raising_min_max ex_result_one ex_failed_all
      ex_result_half linspace_def fsub_def Let_def)

text \<open>The theorem at the optimizer over one asset, the solver that returns the initial
  weights, and two targets.\<close>

theorem efficient_frontier_sweep_witness:
  "optimize_min_volatility ex_uniform_solver ex_optimizer =
     Inr \<lparr>or_weights = [Fin 1], or_expected_return = Fin 0,
          or_volatility = Fin (21 / 50), or_sharpe_ratio = Fin (- 2 / 21)\<rparr> \<and>
   optimize_max_return ex_uniform_solver ex_optimizer =
     Inr \<lparr>or_weights = [Fin 1], or_expected_return = Fin 0,
          or_volatility = Fin (21 / 50), or_sharpe_ratio = Fin (- 2 / 21)\<rparr> \<and>
   linspace (Fin 0) (Fin 0) 2 = [Fin 0, Fin 0] \<and>
   generate_efficient_frontier ex_uniform_solver ex_optimizer 2 =
     Inr \<lparr>fr_volatilities = [Fin (21 / 50), Fin (21 / 50)], fr_returns = [Fin 0, Fin 0],
          fr_sharpe_ratios = [Fin (- 2 / 21), Fin (- 2 / 21)]\<rparr>"
proof -
  let ?r = "\<lparr>or_weights = [Fin 1], or_expected_return = Fin 0,
          or_volatility = Fin (21 / 50), or_sharpe_ratio = Fin (- 2 / 21)\<rparr>"
  have mn: "optimize_min_volatility ex_uniform_solver ex_optimizer = Inr ?r"
    and mx: "optimize_max_return ex_uniform_solver ex_optimizer = Inr ?r"
    by (simp_all add: ex_uniform_all ex_result_one)
  from efficient_frontier_sweep[OF mn mx, of 2]
  obtain fr where fr: "generate_efficient_frontier ex_uniform_solver ex_optimizer 2 = Inr fr"
    and t: "linspace (Fin 0) (Fin 0) 2 = map (\<lambda>i. Fin (0 + real i * (0 - 0) / real (2 - 1))) [0..<2]"
    and v: "fr_volatilities fr = map or_volatility (map projr (filter (\<lambda>x. \<not> isl x)
              (map (optimize_target_return ex_uniform_solver ex_optimizer) (linspace (Fin 0) (Fin 0) 2))))"
           "fr_returns fr = map or_expected_return (map projr (filter (\<lambda>x. \<not> isl x)
              (map (optimize_target_return ex_uniform_solver ex_optimizer) (linspace (Fin 0) (Fin 0) 2))))"
           "fr_sharpe_ratios fr = map or_sharpe_ratio (map projr (filter (\<lambda>x. \<not> isl x)
              (map (optimize_target_return ex_uniform_solver ex_optimizer) (linspace (Fin 0) (Fin 0) 2))))"
    by (auto simp: Let_def)
  have t2: "linspace (Fin 0) (Fin 0) 2 = [Fin 0, Fin 0]"
    using t by (simp add: numeral_2_eq_2)
  have "fr = \<lparr>fr_volatilities = [Fin (21 / 50), Fin (21 / 50)], fr_returns = [Fin 0, Fin 0],
          fr_sharpe_ratios = [Fin (- 2 / 21), Fin (- 2 / 21)]\<rparr>"
    using v unfolding t2 by (simp add: ex_uniform_all ex_result_one)
  then show ?thesis using mn mx t2 fr by simp
qed

end
